theory Spec2Isabelle
  imports Main
begin

section \<open>Partial reductions and broadcast assignment of Eigen's VectorwiseOp.h\<close>

text \<open>
  A shallow embedding of \<^verbatim>\<open>Eigen/src/Array/VectorwiseOp.h\<close>: the expression node
  \<^verbatim>\<open>PartialReduxExpr\<close>, the member functors generated by \<^verbatim>\<open>EIGEN_MEMBER_FUNCTOR\<close> and the
  pseudo expression \<^verbatim>\<open>VectorwiseOp\<close> returned by \<^verbatim>\<open>colwise()\<close> and \<^verbatim>\<open>rowwise()\<close>.

  Vocabulary used for the axes. A \<^verbatim>\<open>Vertical\<close> adaptor (\<^verbatim>\<open>colwise()\<close>, the spec's column-axis)
  works on the columns of the matrix: its sub-vectors are the columns, each of length
  \<open>rows\<close>, and there are \<open>cols\<close> of them; a reduction collapses the row extent to 1 and keeps
  the column extent. A \<^verbatim>\<open>Horizontal\<close> adaptor (\<^verbatim>\<open>rowwise()\<close>, the row-axis) works on the rows:
  its sub-vectors are the rows, each of length \<open>cols\<close>, and there are \<open>rows\<close> of them; a
  reduction collapses the column extent to 1 and keeps the row extent. Where the spec sizes
  a broadcast operand or a replication "to the non-reduced axis", that extent is the length
  of one sub-vector.
\<close>

subsection \<open>Expressions\<close>

text \<open>
  Every Eigen expression offers \<^verbatim>\<open>rows()\<close>, \<^verbatim>\<open>cols()\<close> and \<^verbatim>\<open>coeff(i,j)\<close>. Extents and indices
  are C++ \<^verbatim>\<open>int\<close>s that Eigen keeps non-negative and far from overflow; they are natural
  numbers here.
\<close>

record 'a MatrixBase =
  rows :: nat
  cols :: nat
  coeff :: "nat \<Rightarrow> nat \<Rightarrow> 'a"

text \<open>The template parameter \<^verbatim>\<open>Direction\<close>; the header only ever tests it against these two.\<close>

datatype DirectionType = Vertical | Horizontal

text \<open>
  Modelled from the spec: \<^verbatim>\<open>MatrixBase::col\<close> and \<^verbatim>\<open>MatrixBase::row\<close> (Block.h) are not part of
  the header. The spec's sub-vector is "a single row or column extracted without copy from a
  matrix": column \<open>j\<close> is the \<open>rows \<times> 1\<close> expression whose coefficient \<open>(i, 0)\<close> is
  \<open>coeff i j\<close>, row \<open>i\<close> the \<open>1 \<times> cols\<close> expression whose coefficient \<open>(0, j)\<close> is \<open>coeff i j\<close>.
\<close>

definition col :: "'a MatrixBase \<Rightarrow> nat \<Rightarrow> 'a MatrixBase" where
  "col m j = \<lparr>rows = rows m, cols = 1, coeff = (\<lambda>i k. coeff m i (j + k))\<rparr>"

definition row :: "'a MatrixBase \<Rightarrow> nat \<Rightarrow> 'a MatrixBase" where
  "row m i = \<lparr>rows = 1, cols = cols m, coeff = (\<lambda>k j. coeff m (i + k) j)\<rparr>"

text \<open>The coefficients of an expression in the order a whole-matrix reduction visits them
  (column after column).\<close>

definition coeffs :: "'a MatrixBase \<Rightarrow> 'a list" where
  "coeffs m = concat (map (\<lambda>j. map (\<lambda>i. coeff m i j) [0..<rows m]) [0..<cols m])"

text \<open>
  Modelled from the spec: the whole-matrix reductions \<^verbatim>\<open>MatrixBase::sum\<close>,
  \<^verbatim>\<open>MatrixBase::maxCoeff\<close>, \<^verbatim>\<open>MatrixBase::count\<close> (Redux.h, Sum.h, BooleanRedux.h) are not part of
  the header. By the spec each member functor "reduces a sub-vector to a scalar, matching the
  corresponding whole-matrix reduction": sum, max, count-of-true. A coefficient counts as
  true when it differs from zero (the C++ conversion to \<^verbatim>\<open>bool\<close>); the count is an \<^verbatim>\<open>int\<close>
  whatever the scalar type. The largest coefficient of an expression without coefficients
  does not exist: \<open>None\<close>.
\<close>

definition MatrixBase_sum :: "'a::monoid_add MatrixBase \<Rightarrow> 'a" where
  "MatrixBase_sum m = foldl (+) 0 (coeffs m)"

definition MatrixBase_maxCoeff :: "'a::linorder MatrixBase \<Rightarrow> 'a option" where
  "MatrixBase_maxCoeff m = (case coeffs m of [] \<Rightarrow> None | x # xs \<Rightarrow> Some (foldl max x xs))"

definition MatrixBase_count :: "'a::zero MatrixBase \<Rightarrow> int" where
  "MatrixBase_count m = int (length (filter (\<lambda>x. x \<noteq> 0) (coeffs m)))"

subsection \<open>PartialReduxExpr\<close>

text \<open>
  \<^verbatim>\<open>PartialReduxExpr<MatrixType, MemberOp, Direction>\<close> holds the nested matrix and the member
  functor; its scalar type is the functor's \<^verbatim>\<open>result_type\<close>, here the type variable \<open>'r\<close>.
\<close>

record ('a, 'r) PartialReduxExpr =
  m_matrix :: "'a MatrixBase"
  m_functor :: "'a MatrixBase \<Rightarrow> 'r"
  Direction :: DirectionType

definition PartialReduxExpr_rows :: "('a, 'r) PartialReduxExpr \<Rightarrow> nat" where
  "PartialReduxExpr_rows e = (if Direction e = Vertical then 1 else rows (m_matrix e))"

definition PartialReduxExpr_cols :: "('a, 'r) PartialReduxExpr \<Rightarrow> nat" where
  "PartialReduxExpr_cols e = (if Direction e = Horizontal then 1 else cols (m_matrix e))"

text \<open>\<^verbatim>\<open>coeff(int i, int j)\<close>\<close>

definition PartialReduxExpr_coeff :: "('a, 'r) PartialReduxExpr \<Rightarrow> nat \<Rightarrow> nat \<Rightarrow> 'r" where
  "PartialReduxExpr_coeff e i j =
     (if Direction e = Vertical then m_functor e (col (m_matrix e) j)
      else m_functor e (row (m_matrix e) i))"

text \<open>\<^verbatim>\<open>coeff(int index)\<close>\<close>

definition PartialReduxExpr_coeff_index :: "('a, 'r) PartialReduxExpr \<Rightarrow> nat \<Rightarrow> 'r" where
  "PartialReduxExpr_coeff_index e index =
     (if Direction e = Vertical then m_functor e (col (m_matrix e) index)
      else m_functor e (row (m_matrix e) index))"

text \<open>The functors of \<^verbatim>\<open>EIGEN_MEMBER_FUNCTOR(MEMBER, COST)\<close>: \<^verbatim>\<open>operator()(mat)\<close> returns
  \<^verbatim>\<open>mat.MEMBER()\<close>.\<close>

definition ei_member_sum :: "'a::monoid_add MatrixBase \<Rightarrow> 'a" where
  "ei_member_sum mat = MatrixBase_sum mat"

definition ei_member_maxCoeff :: "'a::linorder MatrixBase \<Rightarrow> 'a option" where
  "ei_member_maxCoeff mat = MatrixBase_maxCoeff mat"

definition ei_member_count :: "'a::zero MatrixBase \<Rightarrow> int" where
  "ei_member_count mat = MatrixBase_count mat"

subsection \<open>VectorwiseOp\<close>

text \<open>The adaptor holds the expression (\<^verbatim>\<open>_expression()\<close>) and its direction.\<close>

datatype 'a VectorwiseOp = VectorwiseOp (expression: "'a MatrixBase") (direction: DirectionType)

definition colwise :: "'a MatrixBase \<Rightarrow> 'a VectorwiseOp" where
  "colwise m = VectorwiseOp m Vertical"

definition rowwise :: "'a MatrixBase \<Rightarrow> 'a VectorwiseOp" where
  "rowwise m = VectorwiseOp m Horizontal"

text \<open>\<^verbatim>\<open>subVectors()\<close>: the number of sub-vectors in the direction.\<close>

definition subVectors :: "'a VectorwiseOp \<Rightarrow> nat" where
  "subVectors v = (if direction v = Vertical then cols (expression v) else rows (expression v))"

text \<open>\<^verbatim>\<open>sum()\<close>, \<^verbatim>\<open>maxCoeff()\<close>, \<^verbatim>\<open>count()\<close>: each returns \<^verbatim>\<open>_expression()\<close>, converted to the
  PartialReduxExpr of its return type with a default-constructed functor.\<close>

definition VectorwiseOp_sum :: "'a::monoid_add VectorwiseOp \<Rightarrow> ('a, 'a) PartialReduxExpr" where
  "VectorwiseOp_sum v =
     \<lparr>m_matrix = expression v, m_functor = ei_member_sum, Direction = direction v\<rparr>"

definition VectorwiseOp_maxCoeff ::
  "'a::linorder VectorwiseOp \<Rightarrow> ('a, 'a option) PartialReduxExpr" where
  "VectorwiseOp_maxCoeff v =
     \<lparr>m_matrix = expression v, m_functor = ei_member_maxCoeff, Direction = direction v\<rparr>"

definition VectorwiseOp_count :: "'a::zero VectorwiseOp \<Rightarrow> ('a, int) PartialReduxExpr" where
  "VectorwiseOp_count v =
     \<lparr>m_matrix = expression v, m_functor = ei_member_count, Direction = direction v\<rparr>"

text \<open>
  Modelled from the spec: the view types \<^verbatim>\<open>ColXpr\<close> and \<^verbatim>\<open>RowXpr\<close> (Block.h) are not part of
  the header. The spec's sub-vector is "a single row or column extracted without copy from a
  matrix": a view does not hold coefficients, it names those of the matrix that it covers,
  by its first row and column and its extents. \<^verbatim>\<open>ColXpr(m, i)\<close> covers column \<open>i\<close>,
  \<^verbatim>\<open>RowXpr(m, i)\<close> covers row \<open>i\<close>.
\<close>

record Block =
  startRow :: nat
  startCol :: nat
  blockRows :: nat
  blockCols :: nat

definition ColXpr :: "'a MatrixBase \<Rightarrow> nat \<Rightarrow> Block" where
  "ColXpr m i = \<lparr>startRow = 0, startCol = i, blockRows = rows m, blockCols = 1\<rparr>"

definition RowXpr :: "'a MatrixBase \<Rightarrow> nat \<Rightarrow> Block" where
  "RowXpr m i = \<lparr>startRow = i, startCol = 0, blockRows = 1, blockCols = cols m\<rparr>"

text \<open>\<^verbatim>\<open>subVector(i)\<close>: \<^verbatim>\<open>SubVector(m_matrix.derived(), i)\<close>, where \<^verbatim>\<open>SubVector\<close> is \<^verbatim>\<open>ColXpr\<close> when
  the direction is vertical and \<^verbatim>\<open>RowXpr\<close> otherwise.\<close>

definition subVector :: "'a VectorwiseOp \<Rightarrow> nat \<Rightarrow> Block" where
  "subVector v i =
     (if direction v = Vertical then ColXpr (expression v) i else RowXpr (expression v) i)"

subsection \<open>Broadcast assignment\<close>

text \<open>
  The operand \<^verbatim>\<open>const MatrixBase<OtherDerived>& other\<close> is an expression taken by reference:
  none of its coefficients is read before the assignment that needs it. It may be an
  expression of the very matrix that is assigned to (\<^verbatim>\<open>m.colwise() += m.col(0)\<close>), so its
  coefficients are a function of the current state of that matrix.
  \<^verbatim>\<open>EIGEN_STATIC_ASSERT_VECTOR_ONLY(OtherDerived)\<close> makes the compiler reject an operand whose
  type is not a vector type: the operand has one size and one index.
\<close>

record 'a VectorExpr =
  vec_size :: nat
  vec_coeff :: "'a MatrixBase \<Rightarrow> nat \<Rightarrow> 'a"

text \<open>A vector with coefficients of its own, which no assignment to the matrix changes.\<close>

definition plainVector :: "'a list \<Rightarrow> 'a VectorExpr" where
  "plainVector xs = \<lparr>vec_size = length xs, vec_coeff = (\<lambda>m i. xs ! i)\<rparr>"

text \<open>The expression \<^verbatim>\<open>m.col(j)\<close> of the matrix \<open>m\<close> that is assigned to: its coefficients are
  read from the matrix as it is at the moment of reading.\<close>

definition colOf :: "'a MatrixBase \<Rightarrow> nat \<Rightarrow> 'a VectorExpr" where
  "colOf m j = \<lparr>vec_size = rows m, vec_coeff = (\<lambda>cur i. coeff cur i j)\<rparr>"

datatype error = ShapeError

text \<open>
  Modelled from the spec: the assignment operators of a view (\<^verbatim>\<open>subVector(j) = other\<close>, \<^verbatim>\<open>+=\<close>,
  \<^verbatim>\<open>-=\<close>; MatrixBase and Block) are not part of the header. By the spec a shape mismatch is
  "a precondition failure before any mutation begins; no implicit resize/truncation", and
  the view is zero-copy: the assignment writes through it into the matrix, one coefficient
  after the other, reading the operand's coefficient when it writes. It knows the view and
  nothing of the adaptor. The function \<open>f\<close> combines the old coefficient with the operand's:
  \<open>\<lambda>x y. y\<close> for \<^verbatim>\<open>=\<close>, \<open>(+)\<close> for \<^verbatim>\<open>+=\<close>, \<open>(-)\<close> for \<^verbatim>\<open>-=\<close>.
\<close>

definition assignCoeff ::
  "('a \<Rightarrow> 'a \<Rightarrow> 'a) \<Rightarrow> Block \<Rightarrow> 'a VectorExpr \<Rightarrow> 'a MatrixBase \<Rightarrow> nat \<Rightarrow> 'a MatrixBase" where
  "assignCoeff f b other m k =
     (let r = startRow b + k mod blockRows b;
          c = startCol b + k div blockRows b
      in m\<lparr>coeff := (coeff m)(r := (coeff m r)(c := f (coeff m r c) (vec_coeff other m k)))\<rparr>)"

definition assignVector ::
  "('a \<Rightarrow> 'a \<Rightarrow> 'a) \<Rightarrow> Block \<Rightarrow> 'a VectorExpr \<Rightarrow> 'a MatrixBase \<Rightarrow> 'a MatrixBase" where
  "assignVector f b other m = foldl (assignCoeff f b other) m [0..<blockRows b * blockCols b]"

definition Block_assign ::
  "('a \<Rightarrow> 'a \<Rightarrow> 'a) \<Rightarrow> 'a MatrixBase \<Rightarrow> Block \<Rightarrow> 'a VectorExpr \<Rightarrow> error + 'a MatrixBase" where
  "Block_assign f m b other =
     (if vec_size other \<noteq> blockRows b * blockCols b then Inl ShapeError
      else Inr (assignVector f b other m))"

text \<open>
  The state of a broadcast assignment: the matrix behind the adaptor, which the loop
  mutates, and the views assigned so far, in order (a log kept to state in which order the
  loop works and on which sub-vectors).
\<close>

record 'a broadcast_state =
  matrix :: "'a MatrixBase"
  visited :: "Block list"

text \<open>
  The loop shared by the three operators:
  \<^verbatim>\<open>for(int j=0; j<subVectors(); ++j) subVector(j) OP other;\<close>
  A failed precondition of a sub-vector assignment stops the program: \<open>Inl\<close> with the state
  reached at that moment. Otherwise the loop ends and the operator returns the matrix,
  \<^verbatim>\<open>const_cast<ExpressionType&>(m_matrix)\<close>: \<open>Inr\<close>.
\<close>

function broadcast_loop ::
  "('a \<Rightarrow> 'a \<Rightarrow> 'a) \<Rightarrow> DirectionType \<Rightarrow> 'a VectorExpr \<Rightarrow> nat \<Rightarrow> 'a broadcast_state
     \<Rightarrow> (error \<times> 'a broadcast_state) + 'a broadcast_state" where
  "broadcast_loop f d other j s =
     (if j < subVectors (VectorwiseOp (matrix s) d)
      then (case Block_assign f (matrix s) (subVector (VectorwiseOp (matrix s) d) j) other of
              Inl e \<Rightarrow> Inl (e, s)
            | Inr m' \<Rightarrow>
                broadcast_loop f d other (Suc j)
                  \<lparr>matrix = m', visited = visited s @ [subVector (VectorwiseOp (matrix s) d) j]\<rparr>)
      else Inr s)"
  by pat_completeness auto
termination
proof (relation "measure (\<lambda>(f, d, other, j, s). subVectors (VectorwiseOp (matrix s) d) - j)")
  show "wf (measure (\<lambda>(f, d, other, j, s). subVectors (VectorwiseOp (matrix s) d) - j))"
    by simp
next
  fix f :: "'a \<Rightarrow> 'a \<Rightarrow> 'a" and d other j and s :: "'a broadcast_state" and m'
  assume lt: "j < subVectors (VectorwiseOp (matrix s) d)"
    and ok: "Block_assign f (matrix s) (subVector (VectorwiseOp (matrix s) d) j) other = Inr m'"
  have keep: "rows (foldl (assignCoeff f b other) m ks) = rows m
      \<and> cols (foldl (assignCoeff f b other) m ks) = cols m" for b m ks
    by (induction ks arbitrary: m) (simp_all add: assignCoeff_def Let_def)
  from ok have "rows m' = rows (matrix s)" "cols m' = cols (matrix s)"
    by (auto simp: Block_assign_def assignVector_def keep split: if_splits)
  with lt show "((f, d, other, Suc j,
        \<lparr>matrix = m', visited = visited s @ [subVector (VectorwiseOp (matrix s) d) j]\<rparr>),
       (f, d, other, j, s))
      \<in> measure (\<lambda>(f, d, other, j, s). subVectors (VectorwiseOp (matrix s) d) - j)"
    by (auto simp: subVectors_def split: if_splits)
qed

declare broadcast_loop.simps [simp del]

text \<open>\<^verbatim>\<open>operator=\<close>: copies the vector \<open>other\<close> to each sub-vector.\<close>

definition VectorwiseOp_assign ::
  "'a VectorwiseOp \<Rightarrow> 'a VectorExpr \<Rightarrow> (error \<times> 'a broadcast_state) + 'a broadcast_state" where
  "VectorwiseOp_assign v other =
     broadcast_loop (\<lambda>x y. y) (direction v) other 0 \<lparr>matrix = expression v, visited = []\<rparr>"

text \<open>\<^verbatim>\<open>operator+=\<close>: adds the vector \<open>other\<close> to each sub-vector.\<close>

definition VectorwiseOp_add_assign ::
  "'a::plus VectorwiseOp \<Rightarrow> 'a VectorExpr \<Rightarrow> (error \<times> 'a broadcast_state) + 'a broadcast_state"
  where
  "VectorwiseOp_add_assign v other =
     broadcast_loop (+) (direction v) other 0 \<lparr>matrix = expression v, visited = []\<rparr>"

text \<open>\<^verbatim>\<open>operator-=\<close>: subtracts the vector \<open>other\<close> from each sub-vector.\<close>

definition VectorwiseOp_sub_assign ::
  "'a::minus VectorwiseOp \<Rightarrow> 'a VectorExpr \<Rightarrow> (error \<times> 'a broadcast_state) + 'a broadcast_state"
  where
  "VectorwiseOp_sub_assign v other =
     broadcast_loop (-) (direction v) other 0 \<lparr>matrix = expression v, visited = []\<rparr>"

text \<open>The matrix that an operator returns, when it returns.\<close>

definition returned ::
  "(error \<times> 'a broadcast_state) + 'a broadcast_state \<Rightarrow> 'a MatrixBase option" where
  "returned r = (case r of Inl e \<Rightarrow> None | Inr s \<Rightarrow> Some (matrix s))"

text \<open>The matrix in which \<open>f\<close> has combined the coefficients \<open>xs\<close> into the sub-vectors
  \<open>lo, \<dots>, hi - 1\<close> of \<open>m\<close>.\<close>

definition broadcast_range ::
  "('a \<Rightarrow> 'a \<Rightarrow> 'a) \<Rightarrow> DirectionType \<Rightarrow> 'a list \<Rightarrow> nat \<Rightarrow> nat \<Rightarrow> 'a MatrixBase \<Rightarrow> 'a MatrixBase"
  where
  "broadcast_range f d xs lo hi m =
     m\<lparr>coeff := (\<lambda>r c.
         if d = Vertical
         then (if lo \<le> c \<and> c < hi \<and> r < rows m then f (coeff m r c) (xs ! r) else coeff m r c)
         else (if lo \<le> r \<and> r < hi \<and> c < cols m then f (coeff m r c) (xs ! c) else coeff m r c))\<rparr>"

subsection \<open>Structural accessors\<close>

text \<open>
  Modelled from the spec: the expression class \<^verbatim>\<open>Reverse\<close> (Reverse.h) is not part of the
  header. By the spec \<^verbatim>\<open>reverse()\<close> "returns sub-vectors reversed along the adaptor's axis", and
  by the header's own comment the result is "a matrix expression where each column (or row)
  are reversed": vertically, row \<open>i\<close> reads row \<open>rows - i - 1\<close>; horizontally, column \<open>j\<close> reads
  column \<open>cols - j - 1\<close>.
\<close>

definition Reverse :: "'a MatrixBase \<Rightarrow> DirectionType \<Rightarrow> 'a MatrixBase" where
  "Reverse m d =
     \<lparr>rows = rows m, cols = cols m,
      coeff = (\<lambda>i j. coeff m (if d = Vertical then rows m - i - 1 else i)
                              (if d = Horizontal then cols m - j - 1 else j))\<rparr>"

text \<open>\<^verbatim>\<open>reverse()\<close>: \<^verbatim>\<open>Reverse<ExpressionType, Direction>(_expression())\<close>\<close>

definition VectorwiseOp_reverse :: "'a VectorwiseOp \<Rightarrow> 'a MatrixBase" where
  "VectorwiseOp_reverse v = Reverse (expression v) (direction v)"

text \<open>
  Modelled from the spec: the expression class \<^verbatim>\<open>Replicate\<close> (Replicate.h) is not part of the
  header. Its constructor takes the expression, the row factor and the column factor (so
  does \<^verbatim>\<open>extendedTo\<close> use it, to replicate a vector to the size of the matrix), and by the
  spec it tiles the wrapped expression: the result has \<open>rows * rowFactor\<close> rows and
  \<open>cols * colFactor\<close> columns and repeats the expression periodically.
\<close>

definition Replicate :: "'a MatrixBase \<Rightarrow> nat \<Rightarrow> nat \<Rightarrow> 'a MatrixBase" where
  "Replicate m rowFactor colFactor =
     \<lparr>rows = rows m * rowFactor, cols = cols m * colFactor,
      coeff = (\<lambda>i j. coeff m (i mod rows m) (j mod cols m))\<rparr>"

text \<open>\<^verbatim>\<open>replicate(factor)\<close>:
  \<^verbatim>\<open>Replicate<...>(_expression(), Direction==Vertical?factor:1, Direction==Horizontal?factor:1)\<close>\<close>

definition VectorwiseOp_replicate :: "'a VectorwiseOp \<Rightarrow> nat \<Rightarrow> 'a MatrixBase" where
  "VectorwiseOp_replicate v factor =
     Replicate (expression v) (if direction v = Vertical then factor else 1)
                              (if direction v = Horizontal then factor else 1)"


subsection \<open>Vocabulary of the properties\<close>

text \<open>The length of one sub-vector in direction \<open>d\<close>: the extent along the adaptor's axis.\<close>

definition subVectorSize :: "DirectionType \<Rightarrow> 'a MatrixBase \<Rightarrow> nat" where
  "subVectorSize d m = (if d = Vertical then rows m else cols m)"

text \<open>Two expressions are equal when they have the same extents and the same coefficient at
  every position within them.\<close>

definition isEqual :: "'a MatrixBase \<Rightarrow> 'a MatrixBase \<Rightarrow> bool" where
  "isEqual a b \<longleftrightarrow>
     rows a = rows b \<and> cols a = cols b \<and>
     (\<forall>i\<in>{0..<rows a}. \<forall>j\<in>{0..<cols a}. coeff a i j = coeff b i j)"

subsection \<open>Test data\<close>

text \<open>A matrix given by the list of its rows (as the comma initialiser fills one).\<close>

definition fromRows :: "'a list list \<Rightarrow> 'a MatrixBase" where
  "fromRows xss =
     \<lparr>rows = length xss,
      cols = (case xss of [] \<Rightarrow> 0 | xs # _ \<Rightarrow> length xs),
      coeff = (\<lambda>i j. xss ! i ! j)\<rparr>"

text \<open>The matrix of the spec's concrete scenario.\<close>

definition M23 :: "int MatrixBase" where
  "M23 = fromRows [[1, 2, 3], [4, 5, 6]]"

text \<open>The null matrix, as a default-constructed dynamic matrix is: no rows and no columns.\<close>

definition M00 :: "int MatrixBase" where
  "M00 = fromRows []"

text \<open>The coefficients of a matrix, row by row.\<close>

definition toRows :: "'a MatrixBase \<Rightarrow> 'a list list" where
  "toRows m = map (\<lambda>i. map (\<lambda>j. coeff m i j) [0..<cols m]) [0..<rows m]"

section \<open>Theorems\<close>

lemma foldl_add_sum_list: "foldl (+) (a::'a::monoid_add) xs = a + sum_list xs"
  by (induction xs arbitrary: a) (simp_all add: add.assoc)

lemma coeffs_col: "coeffs (col m j) = map (\<lambda>i. coeff m i j) [0..<rows m]"
  by (simp add: coeffs_def col_def)

lemma coeffs_row: "coeffs (row m i) = map (\<lambda>j. coeff m i j) [0..<cols m]"
proof -
  have "concat (map (\<lambda>j. [f j]) [0..<n]) = map f [0..<n]" for f :: "nat \<Rightarrow> 'a" and n
    by (induction n) simp_all
  then show ?thesis
    by (simp add: coeffs_def row_def)
qed

text \<open>
  C10. The flat-index accessor of a PartialReduxExpr agrees with the two-index accessor:
  for a vertical reduction \<open>coeff(k) = coeff(0,k)\<close>, for a horizontal one
  \<open>coeff(k) = coeff(k,0)\<close>, at every index \<open>k\<close>.
\<close>

theorem coeff_index_agrees:
  "PartialReduxExpr_coeff_index e k =
     (case Direction e of
        Vertical \<Rightarrow> PartialReduxExpr_coeff e 0 k
      | Horizontal \<Rightarrow> PartialReduxExpr_coeff e k 0)"
  by (cases "Direction e") (simp_all add: PartialReduxExpr_coeff_index_def PartialReduxExpr_coeff_def)

lemma length_filter_upt: "length (filter P [0..<n]) = card {i. i < n \<and> P i}"
proof -
  have "{i. i < length [0..<n] \<and> P ([0..<n] ! i)} = {i. i < n \<and> P i}"
    by auto
  then show ?thesis
    by (simp only: length_filter_conv_card)
qed

text \<open>
  C1. The sum partial reduction of any matrix \<open>M\<close>, along either axis, has extent 1 on the
  collapsed axis and the extent of \<open>M\<close> on the other one; its coefficient \<open>k\<close> (by either
  accessor) is the sum of the elements of column \<open>k\<close> (\<^verbatim>\<open>colwise\<close>) or of row \<open>k\<close>
  (\<^verbatim>\<open>rowwise\<close>) of \<open>M\<close>.
\<close>

theorem sum_partial_redux:
  fixes M :: "'a::comm_monoid_add MatrixBase"
  shows
    "PartialReduxExpr_rows (VectorwiseOp_sum (colwise M)) = 1
   \<and> PartialReduxExpr_cols (VectorwiseOp_sum (colwise M)) = cols M
   \<and> PartialReduxExpr_coeff (VectorwiseOp_sum (colwise M)) i k = (\<Sum>r<rows M. coeff M r k)
   \<and> PartialReduxExpr_coeff_index (VectorwiseOp_sum (colwise M)) k = (\<Sum>r<rows M. coeff M r k)
   \<and> PartialReduxExpr_rows (VectorwiseOp_sum (rowwise M)) = rows M
   \<and> PartialReduxExpr_cols (VectorwiseOp_sum (rowwise M)) = 1
   \<and> PartialReduxExpr_coeff (VectorwiseOp_sum (rowwise M)) k j = (\<Sum>c<cols M. coeff M k c)
   \<and> PartialReduxExpr_coeff_index (VectorwiseOp_sum (rowwise M)) k = (\<Sum>c<cols M. coeff M k c)"
  by (simp add: PartialReduxExpr_rows_def PartialReduxExpr_cols_def PartialReduxExpr_coeff_def
      PartialReduxExpr_coeff_index_def VectorwiseOp_sum_def colwise_def rowwise_def
      ei_member_sum_def MatrixBase_sum_def coeffs_col coeffs_row foldl_add_sum_list
      interv_sum_list_conv_sum_set_nat atLeast0LessThan)

text \<open>
  C2. For \<open>M = [[1,2,3],[4,5,6]]\<close>: the column-axis sum is \<open>[5,7,9]\<close> with shape \<open>1 \<times> 3\<close>, the
  row-axis sum is \<open>[6,15]\<close> with shape \<open>2 \<times> 1\<close>, and the column-axis maximum is \<open>[4,5,6]\<close>.
\<close>

theorem scenario_2x3:
  "PartialReduxExpr_rows (VectorwiseOp_sum (colwise M23)) = 1
   \<and> PartialReduxExpr_cols (VectorwiseOp_sum (colwise M23)) = 3
   \<and> map (PartialReduxExpr_coeff_index (VectorwiseOp_sum (colwise M23))) [0, 1, 2] = [5, 7, 9]
   \<and> map (PartialReduxExpr_coeff (VectorwiseOp_sum (colwise M23)) 0) [0, 1, 2] = [5, 7, 9]
   \<and> PartialReduxExpr_rows (VectorwiseOp_sum (rowwise M23)) = 2
   \<and> PartialReduxExpr_cols (VectorwiseOp_sum (rowwise M23)) = 1
   \<and> map (PartialReduxExpr_coeff_index (VectorwiseOp_sum (rowwise M23))) [0, 1] = [6, 15]
   \<and> map (\<lambda>i. PartialReduxExpr_coeff (VectorwiseOp_sum (rowwise M23)) i 0) [0, 1] = [6, 15]
   \<and> map (PartialReduxExpr_coeff_index (VectorwiseOp_maxCoeff (colwise M23))) [0, 1, 2]
       = [Some 4, Some 5, Some 6]
   \<and> map (PartialReduxExpr_coeff (VectorwiseOp_maxCoeff (colwise M23)) 0) [0, 1, 2]
       = [Some 4, Some 5, Some 6]"
  by (simp add: PartialReduxExpr_rows_def PartialReduxExpr_cols_def PartialReduxExpr_coeff_def
      PartialReduxExpr_coeff_index_def VectorwiseOp_sum_def VectorwiseOp_maxCoeff_def
      colwise_def rowwise_def ei_member_sum_def ei_member_maxCoeff_def MatrixBase_sum_def
      MatrixBase_maxCoeff_def coeffs_col coeffs_row M23_def fromRows_def upt_rec)

text \<open>
  C3. The count partial reduction of any matrix \<open>M\<close>, along either axis: coefficient \<open>k\<close> is
  the number of true-valued (non-zero) elements of sub-vector \<open>k\<close>, and it is an \<^verbatim>\<open>int\<close>
  whatever the scalar type \<open>'a\<close> of \<open>M\<close> is.
\<close>

theorem count_partial_redux:
  fixes M :: "'a::zero MatrixBase"
  shows
    "PartialReduxExpr_coeff (VectorwiseOp_count (colwise M)) i k
       = int (card {r. r < rows M \<and> coeff M r k \<noteq> 0})
   \<and> PartialReduxExpr_coeff_index (VectorwiseOp_count (colwise M)) k
       = int (card {r. r < rows M \<and> coeff M r k \<noteq> 0})
   \<and> PartialReduxExpr_coeff (VectorwiseOp_count (rowwise M)) k j
       = int (card {c. c < cols M \<and> coeff M k c \<noteq> 0})
   \<and> PartialReduxExpr_coeff_index (VectorwiseOp_count (rowwise M)) k
       = int (card {c. c < cols M \<and> coeff M k c \<noteq> 0})"
  by (simp add: PartialReduxExpr_coeff_def PartialReduxExpr_coeff_index_def
      VectorwiseOp_count_def colwise_def rowwise_def ei_member_count_def MatrixBase_count_def
      coeffs_col coeffs_row length_filter_upt)

subsection \<open>The broadcast loop\<close>

text \<open>With an operand of the sub-vectors' length the loop never fails: it assigns to the
  views \<open>subVector j\<close>, \<open>subVector (j + 1)\<close>, \<dots> one after the other.\<close>

lemma assignCoeffs_extents:
  "rows (foldl (assignCoeff f b other) m ks) = rows m"
  "cols (foldl (assignCoeff f b other) m ks) = cols m"
  by (induction ks arbitrary: m) (simp_all add: assignCoeff_def Let_def)

lemma assignVector_extents:
  "rows (assignVector f b other m) = rows m" "cols (assignVector f b other m) = cols m"
  by (simp_all add: assignVector_def assignCoeffs_extents)

lemma subVector_size:
  "blockRows (subVector (VectorwiseOp m d) j) * blockCols (subVector (VectorwiseOp m d) j)
     = subVectorSize d m"
  by (simp add: subVector_def ColXpr_def RowXpr_def subVectorSize_def)

lemma subVector_extents_only:
  "rows m' = rows m \<Longrightarrow> cols m' = cols m \<Longrightarrow>
   subVector (VectorwiseOp m' d) = subVector (VectorwiseOp m d)"
  by (simp add: fun_eq_iff subVector_def ColXpr_def RowXpr_def)

lemma broadcast_loop_ok:
  "vec_size other = subVectorSize d (matrix s) \<Longrightarrow>
   broadcast_loop f d other j s =
     Inr \<lparr>matrix = foldl (\<lambda>m k. assignVector f (subVector (VectorwiseOp (matrix s) d) k) other m)
                     (matrix s) [j..<subVectors (VectorwiseOp (matrix s) d)],
          visited = visited s @ map (subVector (VectorwiseOp (matrix s) d))
                     [j..<subVectors (VectorwiseOp (matrix s) d)]\<rparr>"
proof (induction f d other j s rule: broadcast_loop.induct)
  case (1 f d other j s)
  let ?n = "subVectors (VectorwiseOp (matrix s) d)"
  let ?b = "subVector (VectorwiseOp (matrix s) d)"
  show ?case
  proof (cases "j < ?n")
    case False
    then show ?thesis
      by (subst broadcast_loop.simps) simp
  next
    case True
    let ?m' = "assignVector f (?b j) other (matrix s)"
    have ok: "Block_assign f (matrix s) (?b j) other = Inr ?m'"
      using "1.prems" by (simp add: Block_assign_def subVector_size)
    let ?s' = "\<lparr>matrix = ?m', visited = visited s @ [?b j]\<rparr>"
    have len: "vec_size other = subVectorSize d (matrix ?s')"
      using "1.prems" by (simp add: subVectorSize_def assignVector_extents)
    have n': "subVectors (VectorwiseOp ?m' d) = ?n"
      by (simp add: subVectors_def assignVector_extents)
    have b': "subVector (VectorwiseOp ?m' d) = ?b"
      by (rule subVector_extents_only) (simp_all add: assignVector_extents)
    have "broadcast_loop f d other j s = broadcast_loop f d other (Suc j) ?s'"
      using True ok by (subst broadcast_loop.simps) simp
    also have "\<dots> = Inr \<lparr>matrix = foldl (\<lambda>m k. assignVector f (subVector (VectorwiseOp (matrix ?s') d) k) other m)
                     (matrix ?s') [Suc j..<subVectors (VectorwiseOp (matrix ?s') d)],
          visited = visited ?s' @ map (subVector (VectorwiseOp (matrix ?s') d))
                     [Suc j..<subVectors (VectorwiseOp (matrix ?s') d)]\<rparr>"
      using "1.IH" [OF True ok len] .
    also have "\<dots> = Inr \<lparr>matrix = foldl (\<lambda>m k. assignVector f (?b k) other m) (matrix s) [j..<?n],
          visited = visited s @ map ?b [j..<?n]\<rparr>"
      using True by (simp add: n' b' upt_conv_Cons)
    finally show ?thesis .
  qed
qed

lemma broadcast_loop_none:
  "subVectors (VectorwiseOp (matrix s) d) \<le> j \<Longrightarrow> broadcast_loop f d other j s = Inr s"
  by (subst broadcast_loop.simps) simp

text \<open>For a plain operand the assignments have a closed form: \<open>broadcast_range\<close>.\<close>

lemma coeff_update_cong:
  "(\<And>r c. g r c = h r c) \<Longrightarrow> m\<lparr>coeff := g\<rparr> = m\<lparr>coeff := h\<rparr>"
proof -
  assume "\<And>r c. g r c = h r c"
  then have "g = h" by (intro ext)
  then show ?thesis by simp
qed

lemma coeff_update_same:
  "(\<And>r c. g r c = coeff m r c) \<Longrightarrow> m\<lparr>coeff := g\<rparr> = m"
proof -
  assume "\<And>r c. g r c = coeff m r c"
  then have "g = coeff m" by (intro ext)
  then show ?thesis by simp
qed

lemma assign_col_plain:
  "startRow b = 0 \<Longrightarrow> n \<le> blockRows b \<Longrightarrow>
   foldl (assignCoeff f b (plainVector xs)) m [0..<n]
   = m\<lparr>coeff := (\<lambda>r c. if c = startCol b \<and> r < n then f (coeff m r c) (xs ! r) else coeff m r c)\<rparr>"
proof (induction n)
  case 0
  show ?case by (simp add: coeff_update_same)
next
  case (Suc n)
  then have "n < blockRows b" by simp
  with Suc show ?case
    by (auto simp: assignCoeff_def Let_def plainVector_def less_Suc_eq intro!: coeff_update_cong)
qed

lemma assign_row_plain:
  "blockRows b = 1 \<Longrightarrow> startCol b = 0 \<Longrightarrow>
   foldl (assignCoeff f b (plainVector xs)) m [0..<n]
   = m\<lparr>coeff := (\<lambda>r c. if r = startRow b \<and> c < n then f (coeff m r c) (xs ! c) else coeff m r c)\<rparr>"
proof (induction n)
  case 0
  show ?case by (simp add: coeff_update_same)
next
  case (Suc n)
  then show ?case
    by (auto simp: assignCoeff_def Let_def plainVector_def less_Suc_eq intro!: coeff_update_cong)
qed

lemma assignVector_plain:
  "rows m = rows M \<Longrightarrow> cols m = cols M \<Longrightarrow>
   assignVector f (subVector (VectorwiseOp M d) k) (plainVector xs) m
   = broadcast_range f d xs k (Suc k) m"
proof (cases d)
  case Vertical
  assume e: "rows m = rows M" "cols m = cols M"
  let ?b = "ColXpr M k"
  have "assignVector f ?b (plainVector xs) m = foldl (assignCoeff f ?b (plainVector xs)) m [0..<rows M]"
    by (simp add: assignVector_def ColXpr_def)
  also have "\<dots> = m\<lparr>coeff := (\<lambda>r c. if c = startCol ?b \<and> r < rows M then f (coeff m r c) (xs ! r) else coeff m r c)\<rparr>"
    by (rule assign_col_plain) (simp_all add: ColXpr_def)
  also have "\<dots> = broadcast_range f d xs k (Suc k) m"
    unfolding broadcast_range_def using Vertical e
    by (intro coeff_update_cong) (auto simp: ColXpr_def)
  finally show ?thesis
    using Vertical by (simp add: subVector_def)
next
  case Horizontal
  assume e: "rows m = rows M" "cols m = cols M"
  let ?b = "RowXpr M k"
  have "assignVector f ?b (plainVector xs) m = foldl (assignCoeff f ?b (plainVector xs)) m [0..<cols M]"
    by (simp add: assignVector_def RowXpr_def)
  also have "\<dots> = m\<lparr>coeff := (\<lambda>r c. if r = startRow ?b \<and> c < cols M then f (coeff m r c) (xs ! c) else coeff m r c)\<rparr>"
    by (rule assign_row_plain) (simp_all add: RowXpr_def)
  also have "\<dots> = broadcast_range f d xs k (Suc k) m"
    unfolding broadcast_range_def using Horizontal e
    by (intro coeff_update_cong) (auto simp: RowXpr_def)
  finally show ?thesis
    using Horizontal by (simp add: subVector_def)
qed

lemma broadcast_range_extents:
  "rows (broadcast_range f d xs lo hi m) = rows m" "cols (broadcast_range f d xs lo hi m) = cols m"
  by (simp_all add: broadcast_range_def)

lemma broadcast_range_empty: "hi \<le> lo \<Longrightarrow> broadcast_range f d xs lo hi m = m"
  unfolding broadcast_range_def by (intro coeff_update_same) auto

lemma broadcast_range_snoc:
  "lo \<le> hi \<Longrightarrow>
   broadcast_range f d xs hi (Suc hi) (broadcast_range f d xs lo hi m)
     = broadcast_range f d xs lo (Suc hi) m"
proof -
  assume le: "lo \<le> hi"
  have "broadcast_range f d xs hi (Suc hi) (broadcast_range f d xs lo hi m)
      = m\<lparr>coeff := coeff (broadcast_range f d xs hi (Suc hi) (broadcast_range f d xs lo hi m))\<rparr>"
    by (simp add: broadcast_range_def)
  also have "\<dots> = broadcast_range f d xs lo (Suc hi) m"
    unfolding broadcast_range_def [of f d xs lo "Suc hi" m] using le
    by (intro coeff_update_cong) (auto simp: broadcast_range_def)
  finally show ?thesis .
qed

lemma foldl_plain:
  "rows m = rows M \<Longrightarrow> cols m = cols M \<Longrightarrow>
   foldl (\<lambda>m k. assignVector f (subVector (VectorwiseOp M d) k) (plainVector xs) m) m [lo..<hi]
   = broadcast_range f d xs lo hi m"
proof (induction hi)
  case 0
  then show ?case by (simp add: broadcast_range_empty)
next
  case (Suc hi)
  show ?case
  proof (cases "lo \<le> hi")
    case False
    then show ?thesis by (simp add: broadcast_range_empty)
  next
    case True
    then have "foldl (\<lambda>m k. assignVector f (subVector (VectorwiseOp M d) k) (plainVector xs) m) m [lo..<Suc hi]
        = assignVector f (subVector (VectorwiseOp M d) hi) (plainVector xs) (broadcast_range f d xs lo hi m)"
      using Suc by simp
    also have "\<dots> = broadcast_range f d xs hi (Suc hi) (broadcast_range f d xs lo hi m)"
      using Suc.prems by (simp add: assignVector_plain broadcast_range_extents)
    also have "\<dots> = broadcast_range f d xs lo (Suc hi) m"
      using True by (rule broadcast_range_snoc)
    finally show ?thesis .
  qed
qed

lemma broadcast_plain:
  assumes "length xs = subVectorSize d M"
  shows "broadcast_loop f d (plainVector xs) 0 \<lparr>matrix = M, visited = []\<rparr> =
     Inr \<lparr>matrix = broadcast_range f d xs 0 (subVectors (VectorwiseOp M d)) M,
          visited = map (subVector (VectorwiseOp M d)) [0..<subVectors (VectorwiseOp M d)]\<rparr>"
proof -
  have "vec_size (plainVector xs) = subVectorSize d (matrix \<lparr>matrix = M, visited = []\<rparr>)"
    using assms by (simp add: plainVector_def)
  then show ?thesis
    by (simp add: broadcast_loop_ok foldl_plain)
qed

lemma M23_extents: "rows M23 = 2" "cols M23 = 3"
  by (simp_all add: M23_def fromRows_def)

lemma M00_extents: "rows M00 = 0" "cols M00 = 0"
  by (simp_all add: M00_def fromRows_def)

lemma broadcast_sub_add:
  fixes m :: "'a::ab_group_add MatrixBase"
  shows "broadcast_range (-) d xs 0 n (broadcast_range (+) d xs 0 n m) = m"
proof -
  have "broadcast_range (-) d xs 0 n (broadcast_range (+) d xs 0 n m)
      = m\<lparr>coeff := coeff (broadcast_range (-) d xs 0 n (broadcast_range (+) d xs 0 n m))\<rparr>"
    by (simp add: broadcast_range_def)
  also have "\<dots> = m"
    by (intro coeff_update_same) (simp add: broadcast_range_def)
  finally show ?thesis .
qed

text \<open>
  C4, as stated, fails for an operand that is an expression of the matrix itself. In
  \<^verbatim>\<open>m.colwise() += m.col(0)\<close> on \<open>[[1,2,3],[4,5,6]]\<close> the operand is \<open>[1,4]\<close> when the operator is
  called, but column 0 is assigned first and the later columns read the operand anew: the
  result is \<open>[[2,4,5],[8,13,14]]\<close>, whose columns 1 and 2 are not the original ones plus
  \<open>[1,4]\<close>.
\<close>

theorem aliasing_operand_add:
  "vec_size (colOf M23 0) = subVectorSize Vertical M23
   \<and> toRows M23 = [[1, 2, 3], [4, 5, 6]]
   \<and> map (vec_coeff (colOf M23 0) M23) [0, 1] = [1, 4]
   \<and> map_option toRows (returned (VectorwiseOp_add_assign (colwise M23) (colOf M23 0)))
       = Some [[2, 4, 5], [8, 13, 14]]"
  by code_simp

text \<open>
  C4 (amended). For every matrix \<open>M\<close>, adaptor over \<open>M\<close> and vector \<open>v\<close> of the sub-vectors'
  length whose coefficients do not depend on \<open>M\<close>: \<^verbatim>\<open>adaptor += v\<close> succeeds and leaves every
  sub-vector equal to its original value plus \<open>v\<close>, element by element; a following
  \<^verbatim>\<open>adaptor -= v\<close> succeeds and restores \<open>M\<close> exactly. The scalars form an additive group, as
  the integers and the machine integers do.
\<close>

theorem broadcast_add_then_sub:
  fixes M :: "'a::ab_group_add MatrixBase"
  assumes "length v = subVectorSize d M"
  shows "\<exists>s1 s2.
      VectorwiseOp_add_assign (VectorwiseOp M d) (plainVector v) = Inr s1
    \<and> rows (matrix s1) = rows M \<and> cols (matrix s1) = cols M
    \<and> (\<forall>r<rows M. \<forall>c<cols M.
          coeff (matrix s1) r c = coeff M r c + v ! (if d = Vertical then r else c))
    \<and> VectorwiseOp_sub_assign (VectorwiseOp (matrix s1) d) (plainVector v) = Inr s2
    \<and> matrix s2 = M"
proof -
  let ?n = "subVectors (VectorwiseOp M d)"
  let ?m1 = "broadcast_range (+) d v 0 ?n M"
  have 1: "VectorwiseOp_add_assign (VectorwiseOp M d) (plainVector v)
      = Inr \<lparr>matrix = ?m1, visited = map (subVector (VectorwiseOp M d)) [0..<?n]\<rparr>"
    using assms by (simp add: VectorwiseOp_add_assign_def broadcast_plain)
  have len: "length v = subVectorSize d ?m1"
    using assms by (simp add: subVectorSize_def broadcast_range_extents)
  have n: "subVectors (VectorwiseOp ?m1 d) = ?n"
    by (simp add: subVectors_def broadcast_range_extents)
  have 2: "VectorwiseOp_sub_assign (VectorwiseOp ?m1 d) (plainVector v)
      = Inr \<lparr>matrix = broadcast_range (-) d v 0 ?n ?m1,
             visited = map (subVector (VectorwiseOp ?m1 d)) [0..<?n]\<rparr>"
    using len by (simp add: VectorwiseOp_sub_assign_def broadcast_plain n)
  have 3: "\<forall>r<rows M. \<forall>c<cols M.
      coeff ?m1 r c = coeff M r c + v ! (if d = Vertical then r else c)"
    by (cases d) (simp_all add: broadcast_range_def subVectors_def)
  show ?thesis
    using 1 2 3 by (simp add: broadcast_sub_add broadcast_range_extents)
qed

text \<open>The theorem at \<open>M = [[1,2,3],[4,5,6]]\<close>, \<^verbatim>\<open>colwise\<close> and \<open>v = [10,20]\<close>.\<close>

theorem broadcast_add_then_sub_witness:
  "length [10, 20 :: int] = subVectorSize Vertical M23
   \<and> (\<exists>s1 s2. VectorwiseOp_add_assign (VectorwiseOp M23 Vertical) (plainVector [10, 20]) = Inr s1
        \<and> coeff (matrix s1) 0 0 = 11 \<and> coeff (matrix s1) 1 2 = 26
        \<and> VectorwiseOp_sub_assign (VectorwiseOp (matrix s1) Vertical) (plainVector [10, 20]) = Inr s2
        \<and> matrix s2 = M23)"
proof -
  have len: "length [10, 20 :: int] = subVectorSize Vertical M23"
    by (simp add: subVectorSize_def M23_extents)
  have e: "coeff M23 0 0 = 1" "coeff M23 1 2 = 6"
    by (simp_all add: M23_def fromRows_def)
  from broadcast_add_then_sub [OF len] obtain s1 s2 where
    a: "VectorwiseOp_add_assign (VectorwiseOp M23 Vertical) (plainVector [10, 20]) = Inr s1"
    and c: "\<forall>r<rows M23. \<forall>c<cols M23.
          coeff (matrix s1) r c = coeff M23 r c + [10, 20] ! (if Vertical = Vertical then r else c)"
    and b: "VectorwiseOp_sub_assign (VectorwiseOp (matrix s1) Vertical) (plainVector [10, 20]) = Inr s2"
    and r: "matrix s2 = M23"
    by blast
  from c e have "coeff (matrix s1) 0 0 = 11" "coeff (matrix s1) 1 2 = 26"
    by (simp_all add: M23_extents)
  with len a b r show ?thesis
    by blast
qed

text \<open>
  C9. Each broadcast assignment (\<^verbatim>\<open>=\<close>, \<^verbatim>\<open>+=\<close>, \<^verbatim>\<open>-=\<close>) with an operand of the sub-vectors'
  length applies the operand to the sub-vectors in ascending order of their index: with
  \<^verbatim>\<open>colwise\<close> to column 0, then column 1, up to column \<open>cols - 1\<close>; with \<^verbatim>\<open>rowwise\<close> to row 0,
  then row 1, up to row \<open>rows - 1\<close>; each step works on the matrix as the steps before have
  left it. The operator returns the mutated matrix itself. The number of sub-vectors is the
  row count when the column extent is the collapsed one (\<^verbatim>\<open>rowwise\<close>) and the column count
  otherwise (\<^verbatim>\<open>colwise\<close>).
\<close>

theorem broadcast_ascending_order:
  fixes M :: "'a::{plus,minus} MatrixBase"
  shows "subVectors (rowwise M) = rows M \<and> subVectors (colwise M) = cols M
    \<and> (vec_size other = rows M \<longrightarrow>
         VectorwiseOp_assign (colwise M) other
           = Inr \<lparr>matrix = foldl (\<lambda>m j. assignVector (\<lambda>x y. y) (ColXpr M j) other m) M [0..<cols M],
                  visited = map (ColXpr M) [0..<cols M]\<rparr>
       \<and> VectorwiseOp_add_assign (colwise M) other
           = Inr \<lparr>matrix = foldl (\<lambda>m j. assignVector (+) (ColXpr M j) other m) M [0..<cols M],
                  visited = map (ColXpr M) [0..<cols M]\<rparr>
       \<and> VectorwiseOp_sub_assign (colwise M) other
           = Inr \<lparr>matrix = foldl (\<lambda>m j. assignVector (-) (ColXpr M j) other m) M [0..<cols M],
                  visited = map (ColXpr M) [0..<cols M]\<rparr>)
    \<and> (vec_size other = cols M \<longrightarrow>
         VectorwiseOp_assign (rowwise M) other
           = Inr \<lparr>matrix = foldl (\<lambda>m i. assignVector (\<lambda>x y. y) (RowXpr M i) other m) M [0..<rows M],
                  visited = map (RowXpr M) [0..<rows M]\<rparr>
       \<and> VectorwiseOp_add_assign (rowwise M) other
           = Inr \<lparr>matrix = foldl (\<lambda>m i. assignVector (+) (RowXpr M i) other m) M [0..<rows M],
                  visited = map (RowXpr M) [0..<rows M]\<rparr>
       \<and> VectorwiseOp_sub_assign (rowwise M) other
           = Inr \<lparr>matrix = foldl (\<lambda>m i. assignVector (-) (RowXpr M i) other m) M [0..<rows M],
                  visited = map (RowXpr M) [0..<rows M]\<rparr>)"
proof -
  have col: "subVector (VectorwiseOp M Vertical) = ColXpr M"
    and row: "subVector (VectorwiseOp M Horizontal) = RowXpr M"
    by (simp_all add: fun_eq_iff subVector_def)
  have "vec_size other = rows M \<Longrightarrow>
      broadcast_loop f Vertical other 0 \<lparr>matrix = M, visited = []\<rparr>
        = Inr \<lparr>matrix = foldl (\<lambda>m j. assignVector f (ColXpr M j) other m) M [0..<cols M],
               visited = map (ColXpr M) [0..<cols M]\<rparr>" for f
    by (simp add: broadcast_loop_ok subVectorSize_def subVectors_def col)
  moreover have "vec_size other = cols M \<Longrightarrow>
      broadcast_loop f Horizontal other 0 \<lparr>matrix = M, visited = []\<rparr>
        = Inr \<lparr>matrix = foldl (\<lambda>m i. assignVector f (RowXpr M i) other m) M [0..<rows M],
               visited = map (RowXpr M) [0..<rows M]\<rparr>" for f
    by (simp add: broadcast_loop_ok subVectorSize_def subVectors_def row)
  ultimately show ?thesis
    by (simp add: VectorwiseOp_assign_def VectorwiseOp_add_assign_def VectorwiseOp_sub_assign_def
        colwise_def rowwise_def subVectors_def)
qed

text \<open>The theorem at \<^verbatim>\<open>m.colwise() -= m.col(0)\<close> on \<open>[[1,2,3],[4,5,6]]\<close>, where the order shows:
  column 0 is cleared first, so columns 1 and 2 have zeros subtracted.\<close>

theorem broadcast_ascending_order_witness:
  "vec_size (colOf M23 0) = rows M23
   \<and> map_option toRows (returned (VectorwiseOp_sub_assign (colwise M23) (colOf M23 0)))
       = Some [[0, 2, 3], [0, 5, 6]]
   \<and> (\<exists>s. VectorwiseOp_sub_assign (colwise M23) (colOf M23 0) = Inr s
        \<and> visited s = [ColXpr M23 0, ColXpr M23 1, ColXpr M23 2])"
proof -
  have len: "vec_size (colOf M23 0) = rows M23"
    by (simp add: colOf_def)
  have up: "[0..<cols M23] = [0, 1, 2]"
    by (simp add: M23_extents upt_rec)
  from broadcast_ascending_order [of M23 "colOf M23 0"] len
  have run: "VectorwiseOp_sub_assign (colwise M23) (colOf M23 0)
           = Inr \<lparr>matrix = foldl (\<lambda>m j. assignVector (-) (ColXpr M23 j) (colOf M23 0) m) M23 [0..<cols M23],
                  visited = map (ColXpr M23) [0..<cols M23]\<rparr>"
    by blast
  have "toRows (foldl (\<lambda>m j. assignVector (-) (ColXpr M23 j) (colOf M23 0) m) M23 [0, 1, 2])
      = [[0, 2, 3], [0, 5, 6]]"
    by code_simp
  with run len up show ?thesis
    by (simp add: returned_def)
qed

text \<open>
  C5. A shape error is to be detected before the first sub-vector is mutated. The
  operators make no check of their own before the loop (the assertion on the null matrix
  in \<^verbatim>\<open>operator=\<close> is commented out), so on the null matrix, which has no sub-vector, an
  operand of size 3 is accepted by all three operators: they return normally.
\<close>

theorem shape_error_undetected_without_subvectors:
  "vec_size (plainVector [1, 2, 3 :: int]) \<noteq> subVectorSize Vertical M00
   \<and> subVectors (colwise M00) = 0
   \<and> VectorwiseOp_assign (colwise M00) (plainVector [1, 2, 3]) = Inr \<lparr>matrix = M00, visited = []\<rparr>
   \<and> VectorwiseOp_add_assign (colwise M00) (plainVector [1, 2, 3]) = Inr \<lparr>matrix = M00, visited = []\<rparr>
   \<and> VectorwiseOp_sub_assign (colwise M00) (plainVector [1, 2, 3]) = Inr \<lparr>matrix = M00, visited = []\<rparr>"
  by (simp add: VectorwiseOp_assign_def VectorwiseOp_add_assign_def VectorwiseOp_sub_assign_def
      colwise_def subVectorSize_def plainVector_def M00_extents broadcast_loop_none subVectors_def)

text \<open>
  C7. For every matrix \<open>M\<close> and direction, reversing twice along the same direction gives an
  expression equal to \<open>M\<close>.
\<close>

theorem reverse_reverse:
  "isEqual (VectorwiseOp_reverse (VectorwiseOp (VectorwiseOp_reverse (VectorwiseOp M d)) d)) M"
  by (cases d) (simp_all add: isEqual_def VectorwiseOp_reverse_def Reverse_def)

text \<open>The theorem at \<open>M = [[1,2,3],[4,5,6]]\<close> and \<^verbatim>\<open>colwise\<close>; one reversal does move the
  coefficients.\<close>

theorem reverse_reverse_witness:
  "isEqual (VectorwiseOp_reverse (VectorwiseOp (VectorwiseOp_reverse (colwise M23)) Vertical)) M23
   \<and> coeff (VectorwiseOp_reverse (colwise M23)) 0 2 = 6
   \<and> coeff (VectorwiseOp_reverse (VectorwiseOp (VectorwiseOp_reverse (colwise M23)) Vertical)) 0 2 = 3"
  using reverse_reverse [of M23 Vertical]
  by (simp add: colwise_def VectorwiseOp_reverse_def Reverse_def M23_def fromRows_def)

text \<open>
  C8. For every matrix \<open>M\<close>, direction and factor \<open>n\<close>, \<^verbatim>\<open>replicate(n)\<close> on the adaptor yields an
  expression whose extent along the adaptor's axis (the length of the sub-vectors, the
  spec's non-reduced-axis extent) is \<open>n\<close> times the original and whose other extent (the
  number of sub-vectors) is unchanged; in every sub-vector of the result, tile \<open>k\<close> equals
  the original sub-vector, for each \<open>k < n\<close>.
\<close>

theorem replicate_tiles:
  "subVectorSize d (VectorwiseOp_replicate (VectorwiseOp M d) n) = n * subVectorSize d M
   \<and> subVectors (VectorwiseOp (VectorwiseOp_replicate (VectorwiseOp M d) n) d)
       = subVectors (VectorwiseOp M d)
   \<and> rows (VectorwiseOp_replicate (colwise M) n) = n * rows M
   \<and> cols (VectorwiseOp_replicate (colwise M) n) = cols M
   \<and> cols (VectorwiseOp_replicate (rowwise M) n) = n * cols M
   \<and> rows (VectorwiseOp_replicate (rowwise M) n) = rows M
   \<and> (\<forall>k<n. \<forall>i<rows M. \<forall>j<cols M.
        coeff (VectorwiseOp_replicate (colwise M) n) (k * rows M + i) j = coeff M i j
      \<and> coeff (VectorwiseOp_replicate (rowwise M) n) i (k * cols M + j) = coeff M i j)"
  by (cases d) (simp_all add: subVectorSize_def subVectors_def VectorwiseOp_replicate_def
      Replicate_def colwise_def rowwise_def)

text \<open>The theorem at \<open>M = [[1,2,3],[4,5,6]]\<close> and \<open>n = 2\<close>.\<close>

theorem replicate_tiles_witness:
  "rows (VectorwiseOp_replicate (colwise M23) 2) = 4
   \<and> cols (VectorwiseOp_replicate (colwise M23) 2) = 3
   \<and> coeff (VectorwiseOp_replicate (colwise M23) 2) 3 2 = 6
   \<and> coeff (VectorwiseOp_replicate (rowwise M23) 2) 1 5 = 6"
proof -
  note t = replicate_tiles [of Vertical M23 2]
  from t have tiles: "\<forall>k<2. \<forall>i<rows M23. \<forall>j<cols M23.
        coeff (VectorwiseOp_replicate (colwise M23) 2) (k * rows M23 + i) j = coeff M23 i j
      \<and> coeff (VectorwiseOp_replicate (rowwise M23) 2) i (k * cols M23 + j) = coeff M23 i j"
    by blast
  have "(1::nat) < 2" "1 < rows M23" "2 < cols M23"
    by (simp_all add: M23_extents)
  with tiles have "coeff (VectorwiseOp_replicate (colwise M23) 2) (1 * rows M23 + 1) 2 = coeff M23 1 2
      \<and> coeff (VectorwiseOp_replicate (rowwise M23) 2) 1 (1 * cols M23 + 2) = coeff M23 1 2"
    by blast
  moreover have "coeff M23 1 2 = 6"
    by (simp add: M23_def fromRows_def)
  moreover from t have
    "rows (VectorwiseOp_replicate (colwise M23) 2) = 2 * rows M23
     \<and> cols (VectorwiseOp_replicate (colwise M23) 2) = cols M23"
    by blast
  ultimately show ?thesis
    by (simp add: M23_extents)
qed

end
